theory Spec2Isabelle
  imports Main "HOL-Library.Word"
begin

unbundle bit_operations_syntax

section \<open>The LDAP authentication driver\<close>

text \<open>
  The driver (\<^verbatim>\<open>LDAPAuthDriver\<close>, \<^verbatim>\<open>handleError\<close>, \<^verbatim>\<open>createLDAPAuthRouter\<close>) talks to a
  directory through the \<^verbatim>\<open>ldapjs\<close> client, to the database through \<^verbatim>\<open>knex\<close> and to the
  users table through \<^verbatim>\<open>UsersService\<close>. The model keeps the driver's own control flow
  and takes what those collaborators answer as data: the errors and events a client
  delivers, the rows of the two tables, the service as a pair of functions.
\<close>

subsection \<open>Errors\<close>

text \<open>
  An \<^verbatim>\<open>ldapjs\<close> error: its class (the three classes \<^verbatim>\<open>handleError\<close> tests with
  \<^verbatim>\<open>instanceof\<close>, the class \<^verbatim>\<open>validateBindClient\<close> tests, and every other error under
  its name) and its \<^verbatim>\<open>message\<close>.
\<close>

datatype ldap_error_class =
    InappropriateAuthenticationError
  | InvalidCredentialsError
  | InsufficientAccessRightsError
  | OperationsError
  | OtherError string

datatype ldap_error = LdapError (error_class: ldap_error_class) (message: string)

text \<open>
  What a promise of the driver can be rejected with: one of the application's exception
  classes, or any other value, here a raw \<^verbatim>\<open>ldapjs\<close> error. The extensions object of
  \<^verbatim>\<open>ServiceUnavailableException\<close> is its \<^verbatim>\<open>service\<close> and \<^verbatim>\<open>message\<close>, that of
  \<^verbatim>\<open>InvalidConfigException\<close> its \<^verbatim>\<open>provider\<close>.
\<close>

datatype exception =
    InvalidCredentialsException
  | InvalidPayloadException string
  | ServiceUnavailableException string (service: string) (underlying: string)
  | InvalidConfigException string string
  | UnexpectedResponseException string
  | RawError ldap_error

definition handleError :: "ldap_error \<Rightarrow> exception" where
  "handleError e =
     (if error_class e = InappropriateAuthenticationError \<or>
         error_class e = InvalidCredentialsError \<or>
         error_class e = InsufficientAccessRightsError
      then InvalidCredentialsException
      else ServiceUnavailableException ''Service returned unexpected error'' ''ldap'' (message e))"

subsection \<open>Promises\<close>

text \<open>
  A promise is settled at most once: \<open>None\<close> is a promise that is still pending when the
  events are over, \<open>Some (Inl x)\<close> one rejected with \<open>x\<close>, \<open>Some (Inr v)\<close> one resolved
  with \<open>v\<close>. \<open>settle\<close> is a call of \<^verbatim>\<open>resolve\<close> or \<^verbatim>\<open>reject\<close>: it has no effect on a
  promise that is settled already.
\<close>

type_synonym 'a promise = "(exception + 'a) option"

definition settle :: "'a promise \<Rightarrow> exception + 'a \<Rightarrow> 'a promise" where
  "settle p v = (case p of None \<Rightarrow> Some v | Some w \<Rightarrow> Some w)"

text \<open>JavaScript truthiness of a value that is a string or \<^verbatim>\<open>undefined\<close>.\<close>

definition truthy :: "string option \<Rightarrow> bool" where
  "truthy v = (case v of None \<Rightarrow> False | Some s \<Rightarrow> s \<noteq> [])"

subsection \<open>verify\<close>

text \<open>
  The user record, as far as the driver reads it, and the connection that \<^verbatim>\<open>verify\<close>
  creates: whether \<^verbatim>\<open>ldap.createClient\<close> was called, the binds issued on the client
  (principal and credential) and whether \<^verbatim>\<open>client.destroy()\<close> was called.
\<close>

record User =
  external_identifier :: "string option"

record connection =
  created :: bool
  binds :: "(string \<times> string) list"
  destroyed :: bool

text \<open>
  What the fresh client delivers to the two callbacks \<^verbatim>\<open>verify\<close> registers: an
  \<^verbatim>\<open>'error'\<close> event, or the completion of the bind (\<open>None\<close> for \<^verbatim>\<open>err === null\<close>).
\<close>

datatype client_event = ClientError ldap_error | BindCallback "ldap_error option"

fun verify_events :: "client_event list \<Rightarrow> unit promise \<times> connection \<Rightarrow> unit promise \<times> connection" where
  "verify_events [] s = s"
| "verify_events (ClientError err # evs) (p, c) =
     verify_events evs (settle p (Inl (handleError err)), c)"
| "verify_events (BindCallback err # evs) (p, c) =
     verify_events evs
       (settle p (case err of Some e \<Rightarrow> Inl (handleError e) | None \<Rightarrow> Inr ()),
        c\<lparr>destroyed := True\<rparr>)"

definition verify :: "User \<Rightarrow> string option \<Rightarrow> client_event list \<Rightarrow> unit promise \<times> connection" where
  "verify user password evs =
     (if \<not> truthy (external_identifier user) \<or> \<not> truthy password
      then (Some (Inl InvalidCredentialsException),
            \<lparr>created = False, binds = [], destroyed = False\<rparr>)
      else (case (external_identifier user, password) of
              (Some dn, Some pw) \<Rightarrow>
                verify_events evs
                  (None, \<lparr>created = True, binds = [(dn, pw)], destroyed = False\<rparr>)
            | _ \<Rightarrow> (Some (Inl InvalidCredentialsException),
                    \<lparr>created = False, binds = [], destroyed = False\<rparr>)))"

text \<open>\<^verbatim>\<open>login\<close> verifies the password of the payload.\<close>

definition login :: "User \<Rightarrow> string option \<Rightarrow> client_event list \<Rightarrow> unit promise \<times> connection" where
  "login user payload_password evs = verify user payload_password evs"

text \<open>The errors a client delivers, through either callback.\<close>

definition delivered_errors :: "client_event list \<Rightarrow> ldap_error list" where
  "delivered_errors evs =
     concat (map (\<lambda>ev. case ev of
                         ClientError e \<Rightarrow> [e]
                       | BindCallback (Some e) \<Rightarrow> [e]
                       | BindCallback None \<Rightarrow> []) evs)"

subsection \<open>The directory as the bind client shows it\<close>

text \<open>
  An attribute of a directory entry is a string, or an array of strings when it has
  several values (\<^verbatim>\<open>typeof v === 'object'\<close>); an attribute the entry lacks is
  \<^verbatim>\<open>undefined\<close>, here \<open>None\<close>. \<^verbatim>\<open>object.dn\<close> is always a string.
\<close>

datatype attr_value = Scalar string | Multi "string list"

record entry =
  dn :: string
  attrs :: "string \<rightharpoonup> attr_value"

definition attr :: "entry \<Rightarrow> string \<Rightarrow> attr_value option" where
  "attr object k = (if k = ''dn'' then Some (Scalar (dn object)) else attrs object k)"

text \<open>
  The events of a search response, in the order they are emitted; the status of the
  \<^verbatim>\<open>'end'\<close> event is \<open>None\<close> when the result is \<^verbatim>\<open>null\<close>. A search answers its callback
  with an error, or with a response that emits events.
\<close>

datatype search_event = SearchEntry entry | ErrorEvent ldap_error | EndEvent "int option"

datatype search_response = SearchFailed ldap_error | SearchResponse "search_event list"

record search_options =
  filter_eq :: "(string \<times> string) option"
  scope :: "string option"
  attributes :: "string list"

text \<open>
  A JavaScript number, as far as the account-control value needs it: \<^verbatim>\<open>NaN\<close>, or an
  integer. \<^verbatim>\<open>Number\<close> applied to a string and \<^verbatim>\<open>String.prototype.toLowerCase\<close> are
  functions of the language, not of the driver: the driver record carries them as
  \<open>Number_of\<close> and \<open>toLowerCase\<close>, and nothing is assumed of them;
  \<^verbatim>\<open>Number(undefined)\<close> is \<^verbatim>\<open>NaN\<close>.
\<close>

datatype number = NaN | Num int

record config =
  bindDn :: string
  bindPassword :: string
  userDn :: string
  provider :: string
  userAttribute :: "string option"
  userScope :: "string option"
  mailAttribute :: "string option"
  groupDn :: "string option"
  groupAttribute :: "string option"
  groupScope :: "string option"

record driver =
  cfg :: config
  search :: "string \<Rightarrow> search_options \<Rightarrow> search_response"
  bind :: "string \<Rightarrow> string \<Rightarrow> ldap_error option"
  Number_of :: "string \<Rightarrow> number"
  toLowerCase :: "string \<Rightarrow> string"

definition Number :: "driver \<Rightarrow> string option \<Rightarrow> number" where
  "Number drv v = (case v of None \<Rightarrow> NaN | Some s \<Rightarrow> Number_of drv s)"

text \<open>\<^verbatim>\<open>a ?? b\<close> on a configuration value that is a string or \<^verbatim>\<open>undefined\<close>.\<close>

definition nullish :: "string option \<Rightarrow> string \<Rightarrow> string" where
  "nullish a b = (case a of None \<Rightarrow> b | Some s \<Rightarrow> s)"

text \<open>
  A handler answers an event by resolving, by rejecting or by leaving the promise as it
  is. \<open>first_settled\<close> runs a handler over the events of a response: the first event that
  settles the promise decides it.
\<close>

datatype 'a reaction = Resolve 'a | Reject exception | Ignore

fun first_settled :: "(search_event \<Rightarrow> 'a reaction) \<Rightarrow> search_event list \<Rightarrow> 'a promise" where
  "first_settled h [] = None"
| "first_settled h (ev # evs) =
     (case h ev of
        Resolve v \<Rightarrow> Some (Inr v)
      | Reject x \<Rightarrow> Some (Inl x)
      | Ignore \<Rightarrow> first_settled h evs)"

definition on_search :: "search_response \<Rightarrow> (search_event \<Rightarrow> 'a reaction) \<Rightarrow> 'a promise" where
  "on_search r h =
     (case r of
        SearchFailed err \<Rightarrow> Some (Inl (handleError err))
      | SearchResponse evs \<Rightarrow> first_settled h evs)"

subsection \<open>validateBindClient\<close>

text \<open>
  The rebind after an \<^verbatim>\<open>OperationsError\<close> is answered by \<open>bind drv\<close>; its callback is
  taken at the place of the error event, which ends the response.
\<close>

definition validateBindClient_on :: "driver \<Rightarrow> search_event \<Rightarrow> unit reaction" where
  "validateBindClient_on drv ev =
     (case ev of
        SearchEntry object \<Rightarrow> Resolve ()
      | ErrorEvent err \<Rightarrow>
          (if error_class err \<noteq> OperationsError then Reject (handleError err)
           else (case bind drv (bindDn (cfg drv)) (bindPassword (cfg drv)) of
                   Some err' \<Rightarrow>
                     (let error = handleError err' in
                      if error = InvalidCredentialsException
                      then Reject (InvalidConfigException ''Invalid bind user'' (provider (cfg drv)))
                      else Reject error)
                 | None \<Rightarrow> Resolve ()))
      | EndEvent status \<Rightarrow>
          (if status = Some 0
           then Reject (UnexpectedResponseException ''Failed to find bind user record'')
           else Ignore))"

definition validateBindClient :: "driver \<Rightarrow> unit promise" where
  "validateBindClient drv =
     on_search
       (search drv (bindDn (cfg drv)) \<lparr>filter_eq = None, scope = None, attributes = []\<rparr>)
       (validateBindClient_on drv)"

subsection \<open>fetchUserDn, fetchUserInfo, fetchUserGroups\<close>

definition fetchUserDn_on :: "driver \<Rightarrow> search_event \<Rightarrow> string option reaction" where
  "fetchUserDn_on drv ev =
     (case ev of
        SearchEntry object \<Rightarrow> Resolve (Some (toLowerCase drv (dn object)))
      | ErrorEvent err \<Rightarrow> Reject (handleError err)
      | EndEvent status \<Rightarrow> Resolve None)"

definition fetchUserDn :: "driver \<Rightarrow> string \<Rightarrow> string option promise" where
  "fetchUserDn drv identifier =
     on_search
       (search drv (userDn (cfg drv))
          \<lparr>filter_eq = Some (nullish (userAttribute (cfg drv)) ''cn'', identifier),
           scope = Some (nullish (userScope (cfg drv)) ''one''),
           attributes = []\<rparr>)
       (fetchUserDn_on drv)"

record UserInfo =
  firstName :: "string option"
  lastName :: "string option"
  email :: "string option"
  userAccountControl :: number

text \<open>
  \<^verbatim>\<open>typeof v === 'object' ? v[0] : v\<close>: the first element of an array (\<^verbatim>\<open>undefined\<close>
  for an empty one), the value itself otherwise.
\<close>

definition first_or_self :: "attr_value option \<Rightarrow> string option" where
  "first_or_self v =
     (case v of
        Some (Multi xs) \<Rightarrow> (case xs of [] \<Rightarrow> None | x # _ \<Rightarrow> Some x)
      | Some (Scalar s) \<Rightarrow> Some s
      | None \<Rightarrow> None)"

definition fetchUserInfo_on :: "driver \<Rightarrow> search_event \<Rightarrow> UserInfo option reaction" where
  "fetchUserInfo_on drv ev =
     (case ev of
        SearchEntry object \<Rightarrow>
          (let email = attr object (nullish (mailAttribute (cfg drv)) ''mail'') in
           Resolve (Some
             \<lparr>firstName = first_or_self (attr object ''givenName''),
              lastName = first_or_self (attr object ''sn''),
              email = first_or_self email,
              userAccountControl = Number drv (first_or_self (attr object ''userAccountControl''))\<rparr>))
      | ErrorEvent err \<Rightarrow> Reject (handleError err)
      | EndEvent status \<Rightarrow> Resolve None)"

definition fetchUserInfo :: "driver \<Rightarrow> string \<Rightarrow> UserInfo option promise" where
  "fetchUserInfo drv userDn' =
     on_search
       (search drv userDn'
          \<lparr>filter_eq = None, scope = None,
           attributes = [''givenName'', ''sn'', nullish (mailAttribute (cfg drv)) ''mail'',
                         ''userAccountControl'']\<rparr>)
       (fetchUserInfo_on drv)"

text \<open>
  \<^verbatim>\<open>fetchUserGroups\<close> keeps the list \<^verbatim>\<open>userGroups\<close> across the events: an entry appends
  every element of an array-valued \<^verbatim>\<open>cn\<close>, or a scalar \<^verbatim>\<open>cn\<close> that is truthy.
\<close>

fun fetchUserGroups_events :: "search_event list \<Rightarrow> string list \<Rightarrow> string list promise" where
  "fetchUserGroups_events [] userGroups = None"
| "fetchUserGroups_events (SearchEntry object # evs) userGroups =
     (case attr object ''cn'' of
        Some (Multi cns) \<Rightarrow> fetchUserGroups_events evs (userGroups @ cns)
      | Some (Scalar cn) \<Rightarrow>
          (if cn \<noteq> [] then fetchUserGroups_events evs (userGroups @ [cn])
           else fetchUserGroups_events evs userGroups)
      | None \<Rightarrow> fetchUserGroups_events evs userGroups)"
| "fetchUserGroups_events (ErrorEvent err # evs) userGroups = Some (Inl (handleError err))"
| "fetchUserGroups_events (EndEvent status # evs) userGroups = Some (Inr userGroups)"

definition fetchUserGroups :: "driver \<Rightarrow> string \<Rightarrow> string list promise" where
  "fetchUserGroups drv userDn' =
     (if \<not> truthy (groupDn (cfg drv)) then Some (Inr [])
      else (case search drv (nullish (groupDn (cfg drv)) [])
                   \<lparr>filter_eq = Some (nullish (groupAttribute (cfg drv)) ''member'', userDn'),
                    scope = Some (nullish (groupScope (cfg drv)) ''one''),
                    attributes = [''cn'']\<rparr> of
              SearchFailed err \<Rightarrow> Some (Inl (handleError err))
            | SearchResponse evs \<Rightarrow> fetchUserGroups_events evs []))"

subsection \<open>refresh\<close>

text \<open>
  \<^verbatim>\<open>a & b\<close> converts both operands with ToInt32 (\<^verbatim>\<open>NaN\<close> to 0, an integer to its residue
  in the signed 32-bit range) and takes the bitwise and. A number is truthy unless it is
  \<^verbatim>\<open>NaN\<close> or 0.
\<close>

definition ToInt32 :: "number \<Rightarrow> int" where
  "ToInt32 x = (case x of NaN \<Rightarrow> 0 | Num n \<Rightarrow> sint (word_of_int n :: 32 word))"

definition bitand :: "number \<Rightarrow> number \<Rightarrow> number" where
  "bitand a b = Num (ToInt32 a AND ToInt32 b)"

definition truthy_number :: "number \<Rightarrow> bool" where
  "truthy_number x = (case x of NaN \<Rightarrow> False | Num n \<Rightarrow> n \<noteq> 0)"

definition INVALID_ACCOUNT_FLAGS :: number where
  "INVALID_ACCOUNT_FLAGS = Num 0x800012"

text \<open>
  \<^verbatim>\<open>refresh\<close> reads \<^verbatim>\<open>user.external_identifier!\<close>: the source asserts that the identifier
  is there, and the model takes the asserted string.
\<close>

definition refresh :: "driver \<Rightarrow> string \<Rightarrow> unit promise" where
  "refresh drv external_id =
     (case validateBindClient drv of
        None \<Rightarrow> None
      | Some (Inl x) \<Rightarrow> Some (Inl x)
      | Some (Inr u) \<Rightarrow>
          (case fetchUserInfo drv external_id of
             None \<Rightarrow> None
           | Some (Inl x) \<Rightarrow> Some (Inl x)
           | Some (Inr userInfo) \<Rightarrow>
               (case userInfo of
                  None \<Rightarrow> Some (Inr ())
                | Some info \<Rightarrow>
                    (if truthy_number (userAccountControl info) \<and>
                        truthy_number (bitand (userAccountControl info) INVALID_ACCOUNT_FLAGS)
                     then Some (Inl InvalidCredentialsException)
                     else Some (Inr ())))))"

subsection \<open>The database and the users service\<close>

text \<open>
  A value of a column or of a payload field; a payload and a row list their fields by
  name, and the first entry of a name is the one that is read. The two
  tables are lists of rows in the order in which a query without \<^verbatim>\<open>ORDER BY\<close> returns
  them; \<^verbatim>\<open>.first()\<close> takes the first row of a result. \<^verbatim>\<open>LOWER\<close> is a function of the
  database engine: the database carries it, and nothing is assumed of it.
\<close>

datatype jsval = Undefined | Null | Str string

type_synonym payload = "(string \<times> jsval) list"

type_synonym row = "(string \<times> jsval) list"

record database =
  directus_users :: "row list"
  directus_roles :: "row list"
  LOWER :: "string \<Rightarrow> string"

definition column :: "row \<Rightarrow> string \<Rightarrow> jsval" where
  "column r c = (case map_of r c of None \<Rightarrow> Undefined | Some v \<Rightarrow> v)"

definition first_row :: "row list \<Rightarrow> row option" where
  "first_row rs = (case rs of [] \<Rightarrow> None | r # _ \<Rightarrow> Some r)"

text \<open>\<^verbatim>\<open>LOWER(??) = ?\<close> and \<^verbatim>\<open>LOWER(??) IN (?, ...)\<close>: a null column matches nothing.\<close>

definition lower_eq :: "database \<Rightarrow> string \<Rightarrow> string \<Rightarrow> row \<Rightarrow> bool" where
  "lower_eq d c v r = (case column r c of Str x \<Rightarrow> LOWER d x = v | _ \<Rightarrow> False)"

definition lower_in :: "database \<Rightarrow> string \<Rightarrow> string list \<Rightarrow> row \<Rightarrow> bool" where
  "lower_in d c vs r = (case column r c of Str x \<Rightarrow> LOWER d x \<in> set vs | _ \<Rightarrow> False)"

text \<open>
  \<^verbatim>\<open>UsersService\<close> is not part of the driver: the model takes its two operations as
  functions on the database, which may throw, and records every call in a log.
\<close>

record users_service =
  createOne :: "payload \<Rightarrow> database \<Rightarrow> exception + database"
  updateOne :: "string \<Rightarrow> payload \<Rightarrow> database \<Rightarrow> exception + database"

datatype service_call = CreateOne payload | UpdateOne string payload

record world =
  db :: database
  calls :: "service_call list"

subsection \<open>getUserID\<close>

definition fetchUserId :: "driver \<Rightarrow> database \<Rightarrow> string \<Rightarrow> string option" where
  "fetchUserId drv d userDn' =
     (case first_row (filter (lower_eq d ''external_identifier'' (toLowerCase drv userDn'))
                        (directus_users d)) of
        None \<Rightarrow> None
      | Some user \<Rightarrow> (case column user ''id'' of Str i \<Rightarrow> Some i | _ \<Rightarrow> None))"

text \<open>The query for \<^verbatim>\<open>userRole\<close>, run only when \<^verbatim>\<open>userGroups.length\<close> is not 0.\<close>

definition select_userRole :: "driver \<Rightarrow> database \<Rightarrow> string list \<Rightarrow> row option" where
  "select_userRole drv d userGroups =
     (if userGroups \<noteq> []
      then first_row (filter (lower_in d ''name'' (map (toLowerCase drv) userGroups))
                        (directus_roles d))
      else None)"

text \<open>\<^verbatim>\<open>userRole?.id\<close>, and \<^verbatim>\<open>v ?? null\<close>.\<close>

definition userRole_id :: "row option \<Rightarrow> jsval" where
  "userRole_id userRole = (case userRole of None \<Rightarrow> Undefined | Some r \<Rightarrow> column r ''id'')"

definition or_null :: "jsval \<Rightarrow> jsval" where
  "or_null v = (case v of Undefined \<Rightarrow> Null | Null \<Rightarrow> Null | Str s \<Rightarrow> Str s)"

definition opt_val :: "string option \<Rightarrow> jsval" where
  "opt_val v = (case v of None \<Rightarrow> Undefined | Some s \<Rightarrow> Str s)"

text \<open>\<^verbatim>\<open>await p\<close> and then the rest of the function, with the world as it is.\<close>

definition await :: "'a promise \<Rightarrow> world \<Rightarrow> ('a \<Rightarrow> 'b promise \<times> world) \<Rightarrow> 'b promise \<times> world" where
  "await p w k =
     (case p of
        None \<Rightarrow> (None, w)
      | Some (Inl x) \<Rightarrow> (Some (Inl x), w)
      | Some (Inr v) \<Rightarrow> k v)"

text \<open>
  The branch for a user that is linked already (\<^verbatim>\<open>if (userId)\<close>), and the branch that
  creates the user. The last line of the source reads the id back from the table and
  casts it to a string: the result is \<^verbatim>\<open>undefined\<close>, here \<open>None\<close>, when no row is found.
\<close>

definition getUserID_linked ::
  "users_service \<Rightarrow> string \<Rightarrow> row option \<Rightarrow> world \<Rightarrow> string option promise \<times> world" where
  "getUserID_linked svc userId userRole w =
     (let p = [(''role'', or_null (userRole_id userRole))];
          w' = w\<lparr>calls := calls w @ [UpdateOne userId p]\<rparr>
      in case updateOne svc userId p (db w) of
           Inl x \<Rightarrow> (Some (Inl x), w')
         | Inr d \<Rightarrow> (Some (Inr (Some userId)), w'\<lparr>db := d\<rparr>))"

definition getUserID_create ::
  "driver \<Rightarrow> users_service \<Rightarrow> string \<Rightarrow> row option \<Rightarrow> world \<Rightarrow> string option promise \<times> world" where
  "getUserID_create drv svc userDn' userRole w =
     await (fetchUserInfo drv userDn') w (\<lambda>userInfo.
       case userInfo of
         None \<Rightarrow> (Some (Inl InvalidCredentialsException), w)
       | Some info \<Rightarrow>
           (let p = [(''provider'', Str (provider (cfg drv))),
                     (''first_name'', opt_val (firstName info)),
                     (''last_name'', opt_val (lastName info)),
                     (''email'', opt_val (email info)),
                     (''external_identifier'', Str userDn'),
                     (''role'', userRole_id userRole)];
                w' = w\<lparr>calls := calls w @ [CreateOne p]\<rparr>
            in case createOne svc p (db w) of
                 Inl x \<Rightarrow> (Some (Inl x), w')
               | Inr d \<Rightarrow> (Some (Inr (fetchUserId drv d userDn')), w'\<lparr>db := d\<rparr>)))"

definition getUserID ::
  "driver \<Rightarrow> users_service \<Rightarrow> string option \<Rightarrow> world \<Rightarrow> string option promise \<times> world" where
  "getUserID drv svc identifier w =
     (case identifier of
        None \<Rightarrow> (Some (Inl InvalidCredentialsException), w)
      | Some ident \<Rightarrow>
          if ident = [] then (Some (Inl InvalidCredentialsException), w)
          else
            await (validateBindClient drv) w (\<lambda>u.
            await (fetchUserDn drv ident) w (\<lambda>userDn'.
              case userDn' of
                None \<Rightarrow> (Some (Inl InvalidCredentialsException), w)
              | Some udn \<Rightarrow>
                  if udn = [] then (Some (Inl InvalidCredentialsException), w)
                  else
                    (let userId = fetchUserId drv (db w) udn in
                     await (fetchUserGroups drv udn) w (\<lambda>userGroups.
                       let userRole = select_userRole drv (db w) userGroups in
                       case userId of
                         None \<Rightarrow> getUserID_create drv svc udn userRole w
                       | Some i \<Rightarrow>
                           if i = [] then getUserID_create drv svc udn userRole w
                           else getUserID_linked svc i userRole w)))))"

subsection \<open>The login route\<close>

text \<open>
  The body of a login request, with the fields the schema names, each a string or absent.
  \<^verbatim>\<open>loginSchema\<close> requires \<^verbatim>\<open>identifier\<close> and \<^verbatim>\<open>password\<close>, allows \<^verbatim>\<open>mode\<close> only as
  \<^verbatim>\<open>cookie\<close> or \<^verbatim>\<open>json\<close>, and (as every \<^verbatim>\<open>Joi.string()\<close>) refuses the empty string; the
  messages stand for Joi's.
\<close>

record login_body =
  identifier' :: "string option"
  password :: "string option"
  mode :: "string option"
  otp :: "string option"

definition loginSchema_validate :: "login_body \<Rightarrow> string option" where
  "loginSchema_validate body =
     (if identifier' body = None then Some ''identifier is required''
      else if identifier' body = Some [] then Some ''identifier is not allowed to be empty''
      else if password body = None then Some ''password is required''
      else if password body = Some [] then Some ''password is not allowed to be empty''
      else if mode body \<noteq> None \<and> mode body \<noteq> Some ''cookie'' \<and> mode body \<noteq> Some ''json''
        then Some ''mode must be one of [cookie, json]''
      else if otp body = Some [] then Some ''otp is not allowed to be empty''
      else None)"

text \<open>The data of an authentication result: what the route answers and what the SDK stores.\<close>

record AuthResult =
  access_token :: string
  expires :: int
  refresh_token :: "string option"

record login_result =
  accessToken :: string
  refreshToken :: string
  expires_in :: int

record environment =
  REFRESH_TOKEN_COOKIE_NAME :: string
  REFRESH_TOKEN_COOKIE_DOMAIN :: "string option"
  REFRESH_TOKEN_TTL :: string
  REFRESH_TOKEN_COOKIE_SECURE :: "bool option"
  REFRESH_TOKEN_COOKIE_SAME_SITE :: "string option"

record cookie_options =
  httpOnly :: bool
  domain :: "string option"
  maxAge :: "int option"
  secure :: bool
  sameSite :: string

record cookie =
  cookie_name :: string
  cookie_value :: string
  options :: cookie_options

record response =
  payload_data :: AuthResult
  cookies :: "cookie list"

text \<open>\<^verbatim>\<open>a || b\<close> on a value that is a string or \<^verbatim>\<open>undefined\<close>.\<close>

definition or_else :: "string option \<Rightarrow> string \<Rightarrow> string" where
  "or_else a b = (case a of None \<Rightarrow> b | Some s \<Rightarrow> if s = [] then b else s)"

text \<open>
  The handler of \<^verbatim>\<open>router.post('/')\<close>. \<^verbatim>\<open>AuthenticationService.login\<close> and the function
  \<^verbatim>\<open>ms\<close> are parameters: the service answers an exception or the two tokens and the
  expiry, \<^verbatim>\<open>ms\<close> reads a duration as milliseconds.
\<close>

definition login_route ::
  "environment \<Rightarrow> (string \<Rightarrow> int option) \<Rightarrow>
   (string \<Rightarrow> login_body \<Rightarrow> string option \<Rightarrow> exception + login_result) \<Rightarrow>
   string \<Rightarrow> login_body \<Rightarrow> exception + response" where
  "login_route env ms authenticationService_login provider' body =
     (case loginSchema_validate body of
        Some msg \<Rightarrow> Inl (InvalidPayloadException msg)
      | None \<Rightarrow>
          (let mode' = or_else (mode body) ''json'' in
           case authenticationService_login provider' body (otp body) of
             Inl x \<Rightarrow> Inl x
           | Inr r \<Rightarrow>
               (let payload = \<lparr>access_token = accessToken r, expires = expires_in r,
                               refresh_token = None\<rparr>;
                    payload = (if mode' = ''json''
                               then payload\<lparr>refresh_token := Some (refreshToken r)\<rparr>
                               else payload);
                    cookies' =
                      (if mode' = ''cookie''
                       then [\<lparr>cookie_name = REFRESH_TOKEN_COOKIE_NAME env,
                              cookie_value = refreshToken r,
                              options =
                                \<lparr>httpOnly = True,
                                 domain = REFRESH_TOKEN_COOKIE_DOMAIN env,
                                 maxAge = ms (REFRESH_TOKEN_TTL env),
                                 secure = (case REFRESH_TOKEN_COOKIE_SECURE env of
                                             None \<Rightarrow> False | Some b \<Rightarrow> b),
                                 sameSite = or_else (REFRESH_TOKEN_COOKIE_SAME_SITE env)
                                              ''strict''\<rparr>\<rparr>]
                       else [])
                in Inr \<lparr>payload_data = payload, cookies = cookies'\<rparr>)))"

subsection \<open>The words of the specification, for comparison\<close>

text \<open>
  The names an entry contributes to the group list: every element of a list-valued
  \<^verbatim>\<open>cn\<close>, a scalar \<^verbatim>\<open>cn\<close> itself unless it is empty.
\<close>

definition group_names :: "entry \<Rightarrow> string list" where
  "group_names object =
     (case attr object ''cn'' of
        Some (Multi cns) \<Rightarrow> cns
      | Some (Scalar cn) \<Rightarrow> (if cn = [] then [] else [cn])
      | None \<Rightarrow> [])"


subsection \<open>The SDK's session\<close>

text \<open>
  The authentication client of the SDK (\<^verbatim>\<open>sdk.auth\<close>, \<^verbatim>\<open>sdk.storage\<close>) is not among the
  sources; only its test \<^verbatim>\<open>auth.node.test.ts\<close> is. The session and its scheduler are
  therefore written after section 4.3 of the specification, with the names the test
  uses. Time is the virtual clock of the test, in milliseconds, advanced one tick at a
  time.
\<close>

text \<open>
  Modelled from the spec: the requests the client sends, \<^verbatim>\<open>/auth/login\<close> with the
  credentials and \<^verbatim>\<open>/auth/refresh\<close> with the refresh token.
\<close>

datatype request = LoginRequest string string | RefreshRequest string

text \<open>
  Modelled from the spec: the server, as what it answers to a login and to a refresh
  (\<open>None\<close> when it rejects). It answers in the tick in which the request is sent.
\<close>

record server =
  on_login :: "string \<Rightarrow> string \<Rightarrow> AuthResult option"
  on_refresh :: "string \<Rightarrow> AuthResult option"

text \<open>
  Modelled from the spec: the client, with its two options, the clock, the stored
  session (token, refresh token, lifetime and expiry), the single timer as the time at
  which it fires, and the log of the requests sent with their times.
\<close>

record client =
  autoRefresh :: bool
  msRefreshBeforeExpires :: int
  now :: int
  auth_token :: "string option"
  auth_refresh_token :: "string option"
  auth_expires :: "int option"
  auth_expires_at :: "int option"
  timer :: "int option"
  sent :: "(int \<times> request) list"

text \<open>
  Modelled from the spec: a new token pair makes the session active until
  \<open>now + expires\<close>; with auto-refresh enabled the timer is set to the expiry minus the
  lead time, in place of a pending one.
\<close>

definition updateStorage :: "AuthResult \<Rightarrow> client \<Rightarrow> client" where
  "updateStorage r c =
     c\<lparr>auth_token := Some (access_token r),
       auth_refresh_token := refresh_token r,
       auth_expires := Some (expires r),
       auth_expires_at := Some (now c + expires r),
       timer := (if autoRefresh c
                 then Some (now c + expires r - msRefreshBeforeExpires c) else None)\<rparr>"

text \<open>Modelled from the spec: the unauthenticated session, with no token and no timer.\<close>

definition resetStorage :: "client \<Rightarrow> client" where
  "resetStorage c =
     c\<lparr>auth_token := None, auth_refresh_token := None, auth_expires := None,
       auth_expires_at := None, timer := None\<rparr>"

text \<open>
  Modelled from the spec: a login sends its request; when it succeeds the session is
  active with the pair of the answer.
\<close>

definition sdk_login :: "server \<Rightarrow> string \<Rightarrow> string \<Rightarrow> client \<Rightarrow> client" where
  "sdk_login srv email' password' c =
     (let c' = c\<lparr>sent := sent c @ [(now c, LoginRequest email' password')]\<rparr> in
      case on_login srv email' password' of
        Some r \<Rightarrow> updateStorage r c'
      | None \<Rightarrow> resetStorage c')"

text \<open>
  Modelled from the spec: a refresh call carries the stored refresh token; the session
  becomes active with the new pair, or unauthenticated when the refresh is rejected
  (or when no refresh token is stored).
\<close>

definition sdk_refresh :: "server \<Rightarrow> client \<Rightarrow> client" where
  "sdk_refresh srv c =
     (case auth_refresh_token c of
        None \<Rightarrow> resetStorage c
      | Some rt \<Rightarrow>
          (let c' = c\<lparr>sent := sent c @ [(now c, RefreshRequest rt)]\<rparr> in
           case on_refresh srv rt of
             Some r \<Rightarrow> updateStorage r c'
           | None \<Rightarrow> resetStorage c'))"

text \<open>
  Modelled from the spec: one millisecond passes; when the time has reached the timer,
  the timer is spent and the client issues a refresh call.
\<close>

definition tick :: "server \<Rightarrow> client \<Rightarrow> client" where
  "tick srv c =
     (let c' = c\<lparr>now := now c + 1\<rparr> in
      case timer c' of
        None \<Rightarrow> c'
      | Some t \<Rightarrow> if t \<le> now c' then sdk_refresh srv (c'\<lparr>timer := None\<rparr>) else c')"

text \<open>Modelled from the spec: \<open>k\<close> milliseconds pass.\<close>

fun ticks :: "nat \<Rightarrow> server \<Rightarrow> client \<Rightarrow> client" where
  "ticks 0 srv c = c"
| "ticks (Suc k) srv c = ticks k srv (tick srv c)"

subsection \<open>An example directory, database and service\<close>

text \<open>
  A lower-case function for the examples, on UTF-8 strings: the letters A to Z, and the
  capital E with acute accent (the bytes C3 89, to C3 A9). The examples use it both for
  \<^verbatim>\<open>toLowerCase\<close> and for \<^verbatim>\<open>LOWER\<close>.
\<close>

definition lower_ascii :: "char \<Rightarrow> char" where
  "lower_ascii c =
     (if 65 \<le> (of_char c :: nat) \<and> (of_char c :: nat) \<le> 90
      then char_of ((of_char c :: nat) + 32) else c)"

fun example_lower :: "string \<Rightarrow> string" where
  "example_lower [] = []"
| "example_lower [c] = [lower_ascii c]"
| "example_lower (c # c' # cs) =
     (if c = CHR 0xC3 \<and> c' = CHR 0x89 then c # CHR 0xA9 # example_lower cs
      else lower_ascii c # example_lower (c' # cs))"

definition example_entry :: entry where
  "example_entry =
     \<lparr>dn = ''CN=John Doe,OU=People,DC=example,DC=org'',
      attrs = [''givenName'' \<mapsto> Multi [''John'', ''Johnny''],
               ''sn'' \<mapsto> Scalar ''Doe'',
               ''mail'' \<mapsto> Multi [''jdoe@example.org'', ''john@example.org''],
               ''userAccountControl'' \<mapsto> Scalar ''514'']\<rparr>"

text \<open>An entry whose name has a capital letter outside ASCII.\<close>

definition example_entry_accent :: entry where
  "example_entry_accent =
     \<lparr>dn = ''CN=JOS'' @ [CHR 0xC3, CHR 0x89] @ '',OU=People,DC=example,DC=org'',
      attrs = [''givenName'' \<mapsto> Scalar (''Jos'' @ [CHR 0xC3, CHR 0xA9]),
               ''userAccountControl'' \<mapsto> Scalar ''512'']\<rparr>"

definition example_config :: config where
  "example_config =
     \<lparr>bindDn = ''cn=admin,dc=example,dc=org'', bindPassword = ''secret'',
      userDn = ''ou=people,dc=example,dc=org'', provider = ''ldap'',
      userAttribute = None, userScope = None, mailAttribute = None,
      groupDn = Some ''ou=groups,dc=example,dc=org'', groupAttribute = None,
      groupScope = None\<rparr>"

definition example_group_entries :: "entry list" where
  "example_group_entries =
     [\<lparr>dn = ''cn=editors,ou=groups,dc=example,dc=org'',
       attrs = [''cn'' \<mapsto> Scalar ''Editors'']\<rparr>,
      \<lparr>dn = ''cn=staff,ou=groups,dc=example,dc=org'',
       attrs = [''cn'' \<mapsto> Multi [''Staff'', ''Employees'']]\<rparr>]"

definition example_search :: "entry \<Rightarrow> string \<Rightarrow> search_options \<Rightarrow> search_response" where
  "example_search user base opts =
     (if base = ''ou=groups,dc=example,dc=org''
        then SearchResponse (map SearchEntry example_group_entries @ [EndEvent (Some 0)])
      else if base = ''cn=admin,dc=example,dc=org''
        then SearchResponse
               [SearchEntry \<lparr>dn = ''cn=admin,dc=example,dc=org'', attrs = Map.empty\<rparr>,
                EndEvent (Some 0)]
      else if base = ''ou=people,dc=example,dc=org''
        then (if filter_eq opts = Some (''cn'', ''jdoe'')
              then SearchResponse [SearchEntry user, EndEvent (Some 0)]
              else SearchResponse [EndEvent (Some 0)])
      else if base = example_lower (dn user)
        then SearchResponse [SearchEntry user, EndEvent (Some 0)]
      else SearchResponse [EndEvent (Some 0)])"

definition example_driver :: "entry \<Rightarrow> driver" where
  "example_driver user =
     \<lparr>cfg = example_config, search = example_search user, bind = (\<lambda>principal secret. None),
      Number_of = (\<lambda>s. if s = ''514'' then Num 514 else if s = ''512'' then Num 512
                         else if s = ''0'' then Num 0 else NaN),
      toLowerCase = example_lower\<rparr>"

definition example_database :: database where
  "example_database =
     \<lparr>directus_users =
        [[(''id'', Str ''u1''), (''email'', Str ''jdoe@example.org''),
          (''external_identifier'', Str ''cn=john doe,ou=people,dc=example,dc=org''),
          (''role'', Null)],
         [(''id'', Str ''u2''),
          (''external_identifier'',
           Str (''cn=jos'' @ [CHR 0xC3, CHR 0xA9] @ '',ou=people,dc=example,dc=org'')),
          (''role'', Null)]],
      directus_roles =
        [[(''id'', Str ''r1''), (''name'', Str ''Administrator'')],
         [(''id'', Str ''r2''), (''name'', Str ''STAFF'')],
         [(''id'', Str ''r3''), (''name'', Str ''editors'')],
         [(''id'', Str ''r9''), (''name'', Str (CHR 0xC3 # CHR 0xA9 # ''diteurs''))]],
      LOWER = example_lower\<rparr>"

text \<open>
  Modelled from the spec: \<^verbatim>\<open>UsersService\<close>, whose source is not with the driver's; for
  the examples only. \<open>createOne\<close> adds a row with the fields of the payload under a new
  id, \<open>updateOne\<close> overwrites the fields of the payload in the row with the given id.
\<close>

definition example_service :: users_service where
  "example_service =
     \<lparr>createOne = (\<lambda>p d. Inr (d\<lparr>directus_users :=
                                    directus_users d @ [(''id'', Str ''u-new'') # p]\<rparr>)),
      updateOne = (\<lambda>i p d. Inr (d\<lparr>directus_users :=
                                      map (\<lambda>r. if column r ''id'' = Str i then p @ r else r)
                                        (directus_users d)\<rparr>))\<rparr>"

text \<open>An example environment, duration reader and authentication service.\<close>

definition example_environment :: environment where
  "example_environment =
     \<lparr>REFRESH_TOKEN_COOKIE_NAME = ''directus_refresh_token'',
      REFRESH_TOKEN_COOKIE_DOMAIN = None,
      REFRESH_TOKEN_TTL = ''7d'',
      REFRESH_TOKEN_COOKIE_SECURE = None,
      REFRESH_TOKEN_COOKIE_SAME_SITE = None\<rparr>"

definition example_ms :: "string \<Rightarrow> int option" where
  "example_ms s = (if s = ''7d'' then Some 604800000 else if s = ''15m'' then Some 900000 else None)"

definition example_login ::
  "string \<Rightarrow> login_body \<Rightarrow> string option \<Rightarrow> exception + login_result" where
  "example_login prov body code =
     (if identifier' body = Some ''jdoe'' \<and> password body = Some ''pw''
      then Inr \<lparr>accessToken = ''AT1'', refreshToken = ''RT1'', expires_in = 900000\<rparr>
      else Inl InvalidCredentialsException)"

text \<open>The server and the client of the scenario: a login that answers AT1, RT1 and 5000 ms,
  a refresh of RT1 that answers AT2, RT2 and 5000 ms, and a lead time of 2500 ms.\<close>

definition example_server :: server where
  "example_server =
     \<lparr>on_login = (\<lambda>e p. if e = ''jdoe'' \<and> p = ''pw''
                          then Some \<lparr>access_token = ''AT1'', expires = 5000,
                                     refresh_token = Some ''RT1''\<rparr>
                          else None),
      on_refresh = (\<lambda>t. if t = ''RT1''
                          then Some \<lparr>access_token = ''AT2'', expires = 5000,
                                     refresh_token = Some ''RT2''\<rparr>
                          else None)\<rparr>"

definition example_client :: client where
  "example_client =
     \<lparr>autoRefresh = True, msRefreshBeforeExpires = 2500, now = 0, auth_token = None,
      auth_refresh_token = None, auth_expires = None, auth_expires_at = None, timer = None,
      sent = []\<rparr>"

section \<open>Properties\<close>

subsection \<open>verify and handleError\<close>

lemma settle_simps: "settle None v = Some v" "settle (Some w) v = Some w"
  by (simp_all add: settle_def)

lemma verify_events_settled:
  "fst (verify_events evs (Some w, c)) = Some w"
proof (induction evs arbitrary: c)
  case Nil
  show ?case by simp
next
  case (Cons ev evs)
  then show ?case by (cases ev) (simp_all add: settle_simps)
qed

lemma verify_events_fields:
  "created (snd (verify_events evs (p, c))) = created c"
  "binds (snd (verify_events evs (p, c))) = binds c"
  "destroyed (snd (verify_events evs (p, c))) = (destroyed c \<or> (\<exists>err. BindCallback err \<in> set evs))"
proof (induction evs arbitrary: p c)
  case Nil
  { case 1 show ?case by simp }
  { case 2 show ?case by simp }
  { case 3 show ?case by simp }
next
  case (Cons ev evs)
  { case 1 show ?case using Cons.IH(1) by (cases ev) auto }
  { case 2 show ?case using Cons.IH(2) by (cases ev) auto }
  { case 3 show ?case using Cons.IH(3) by (cases ev) auto }
qed

lemma verify_events_outcome:
  "fst (verify_events evs (None, c)) = Some (Inl r) \<Longrightarrow>
   \<exists>e \<in> set (delivered_errors evs). r = handleError e"
proof (induction evs arbitrary: c)
  case Nil
  then show ?case by simp
next
  case (Cons ev evs)
  show ?case
  proof (cases ev)
    case (ClientError e)
    with Cons.prems show ?thesis
      by (simp add: settle_simps verify_events_settled delivered_errors_def)
  next
    case (BindCallback err)
    show ?thesis
    proof (cases err)
      case None
      with Cons.prems BindCallback show ?thesis
        by (simp add: settle_simps verify_events_settled)
    next
      case (Some e)
      with Cons.prems BindCallback show ?thesis
        by (simp add: settle_simps verify_events_settled delivered_errors_def)
    qed
  qed
qed

lemma handleError_not_raw: "handleError e \<noteq> RawError e'"
  by (simp add: handleError_def)

text \<open>
  C2. \<^verbatim>\<open>handleError\<close> turns an error of one of the three bind-failure classes into
  \<^verbatim>\<open>InvalidCredentialsException\<close> and every other error into
  \<^verbatim>\<open>ServiceUnavailableException\<close> with the service name \<^verbatim>\<open>ldap\<close> and the error's own
  message. Once \<^verbatim>\<open>verify\<close> has created its client, the first thing the client delivers
  decides the promise: an \<^verbatim>\<open>'error'\<close> event or a bind that fails with \<open>e\<close> rejects it with
  \<^verbatim>\<open>handleError\<close> of \<open>e\<close>, a bind that succeeds resolves it, and with nothing delivered it
  stays pending. So a rejection of \<^verbatim>\<open>verify\<close> is the exception of the early check or
  \<^verbatim>\<open>handleError\<close> of a delivered error, never a raw error; and the two outcomes are
  different exceptions.
\<close>

theorem verify_errors_translated:
  "(error_class e \<in> {InappropriateAuthenticationError, InvalidCredentialsError,
                      InsufficientAccessRightsError}
      \<longrightarrow> handleError e = InvalidCredentialsException) \<and>
   (error_class e \<notin> {InappropriateAuthenticationError, InvalidCredentialsError,
                      InsufficientAccessRightsError}
      \<longrightarrow> handleError e =
            ServiceUnavailableException ''Service returned unexpected error'' ''ldap'' (message e)) \<and>
   (truthy (external_identifier user) \<and> truthy pw \<longrightarrow>
      fst (verify user pw (ClientError e # evs)) = Some (Inl (handleError e)) \<and>
      fst (verify user pw (BindCallback (Some e) # evs)) = Some (Inl (handleError e)) \<and>
      fst (verify user pw (BindCallback None # evs)) = Some (Inr ()) \<and>
      fst (verify user pw []) = None) \<and>
   (\<forall>r. fst (verify user pw evs) = Some (Inl r) \<longrightarrow>
        r = InvalidCredentialsException \<or>
        (\<exists>e' \<in> set (delivered_errors evs). r = handleError e')) \<and>
   (\<forall>e'. fst (verify user pw evs) \<noteq> Some (Inl (RawError e'))) \<and>
   InvalidCredentialsException \<noteq> ServiceUnavailableException m s u"
proof -
  have a: "\<forall>r. fst (verify user pw evs) = Some (Inl r) \<longrightarrow>
        r = InvalidCredentialsException \<or>
        (\<exists>e' \<in> set (delivered_errors evs). r = handleError e')"
    by (auto simp: verify_def dest: verify_events_outcome split: option.splits)
  have b: "\<forall>e'. fst (verify user pw evs) \<noteq> Some (Inl (RawError e'))"
    using a handleError_not_raw by (metis exception.distinct(9))
  have c: "fst (verify user pw (ClientError e # evs)) = Some (Inl (handleError e)) \<and>
      fst (verify user pw (BindCallback (Some e) # evs)) = Some (Inl (handleError e)) \<and>
      fst (verify user pw (BindCallback None # evs)) = Some (Inr ()) \<and>
      fst (verify user pw []) = None"
    if t: "truthy (external_identifier user) \<and> truthy pw"
  proof -
    from t obtain i w where "external_identifier user = Some i" "pw = Some w"
      by (auto simp: truthy_def split: option.splits)
    with t show ?thesis
      by (simp add: verify_def settle_simps verify_events_settled)
  qed
  show ?thesis using a b c by (simp add: handleError_def)
qed

theorem verify_errors_translated_witness:
  "handleError (LdapError InvalidCredentialsError ''Invalid Credentials'') =
     InvalidCredentialsException \<and>
   handleError (LdapError (OtherError ''ConnectionError'') ''connection timeout'') =
     ServiceUnavailableException ''Service returned unexpected error'' ''ldap''
       ''connection timeout'' \<and>
   fst (verify \<lparr>external_identifier = Some ''cn=jdoe,ou=people''\<rparr> (Some ''pw'')
          [BindCallback (Some (LdapError InvalidCredentialsError ''Invalid Credentials''))]) =
     Some (Inl InvalidCredentialsException) \<and>
   fst (verify \<lparr>external_identifier = Some ''cn=jdoe,ou=people''\<rparr> (Some ''pw'')
          [BindCallback (Some (LdapError InsufficientAccessRightsError ''Insufficient Access''))]) =
     Some (Inl InvalidCredentialsException) \<and>
   fst (verify \<lparr>external_identifier = Some ''cn=jdoe,ou=people''\<rparr> (Some ''pw'')
          [ClientError (LdapError (OtherError ''ConnectionError'') ''connection timeout'')]) =
     Some (Inl (ServiceUnavailableException ''Service returned unexpected error'' ''ldap''
                  ''connection timeout'')) \<and>
   fst (verify \<lparr>external_identifier = Some ''cn=jdoe,ou=people''\<rparr> (Some ''pw'')
          [BindCallback None]) = Some (Inr ())"
proof -
  let ?bad = "LdapError InvalidCredentialsError ''Invalid Credentials''"
  let ?acc = "LdapError InsufficientAccessRightsError ''Insufficient Access''"
  let ?net = "LdapError (OtherError ''ConnectionError'') ''connection timeout''"
  let ?user = "\<lparr>external_identifier = Some ''cn=jdoe,ou=people''\<rparr>"
  have t: "truthy (external_identifier ?user) \<and> truthy (Some ''pw'')"
    by (simp add: truthy_def)
  show ?thesis
    using t
      verify_errors_translated [where e = ?bad and user = ?user and pw = "Some ''pw''" and evs = "[]"]
      verify_errors_translated [where e = ?acc and user = ?user and pw = "Some ''pw''" and evs = "[]"]
      verify_errors_translated [where e = ?net and user = ?user and pw = "Some ''pw''" and evs = "[]"]
    by simp
qed

text \<open>
  C10. Without an external identifier, or with a password that is absent or empty,
  \<^verbatim>\<open>verify\<close> throws \<^verbatim>\<open>InvalidCredentialsException\<close> with no client created and no bind
  issued; and no run of \<^verbatim>\<open>verify\<close> issues a bind with the empty password.
\<close>

theorem verify_empty_secret_never_binds:
  "(\<not> truthy (external_identifier user) \<or> \<not> truthy pw \<longrightarrow>
      verify user pw evs =
        (Some (Inl InvalidCredentialsException),
         \<lparr>created = False, binds = [], destroyed = False\<rparr>)) \<and>
   (\<forall>principal. (principal, []) \<notin> set (binds (snd (verify user pw evs))))"
  by (auto simp: verify_def truthy_def verify_events_fields split: option.splits)

theorem verify_empty_secret_never_binds_witness:
  "verify \<lparr>external_identifier = Some ''cn=jdoe,ou=people''\<rparr> (Some [])
      [BindCallback None] =
     (Some (Inl InvalidCredentialsException),
      \<lparr>created = False, binds = [], destroyed = False\<rparr>) \<and>
   verify \<lparr>external_identifier = None\<rparr> (Some ''pw'') [BindCallback None] =
     (Some (Inl InvalidCredentialsException),
      \<lparr>created = False, binds = [], destroyed = False\<rparr>) \<and>
   (''cn=jdoe,ou=people'', []) \<notin>
     set (binds (snd (verify \<lparr>external_identifier = Some ''cn=jdoe,ou=people''\<rparr> (Some ''pw'')
                        [BindCallback None])))"
  using
    verify_empty_secret_never_binds
      [of "\<lparr>external_identifier = Some ''cn=jdoe,ou=people''\<rparr>" "Some []" "[BindCallback None]"]
    verify_empty_secret_never_binds
      [of "\<lparr>external_identifier = None\<rparr>" "Some ''pw''" "[BindCallback None]"]
    verify_empty_secret_never_binds
      [of "\<lparr>external_identifier = Some ''cn=jdoe,ou=people''\<rparr>" "Some ''pw''" "[BindCallback None]"]
  by (simp add: truthy_def)

text \<open>
  C3. The claim asks for the connection of \<^verbatim>\<open>verify\<close> to be destroyed on every outcome.
  \<^verbatim>\<open>client.destroy()\<close> stands in the callback of the bind only. When the client reports
  an error through its \<^verbatim>\<open>'error'\<close> event and the bind is not called back (the server
  answers the bind with bytes that are no LDAP message and keeps the socket open, so
  that the client emits a parser error and the pending bind is never purged), the
  promise is rejected with \<^verbatim>\<open>ServiceUnavailableException\<close> and the connection is left as
  it is.
\<close>

theorem verify_error_event_leaves_connection:
  "verify \<lparr>external_identifier = Some ''cn=jdoe,ou=people''\<rparr> (Some ''pw'')
     [ClientError (LdapError (OtherError ''VError'') ''Parser error for ldap://directory:389'')] =
   (Some (Inl (ServiceUnavailableException ''Service returned unexpected error'' ''ldap''
                 ''Parser error for ldap://directory:389'')),
    \<lparr>created = True, binds = [(''cn=jdoe,ou=people'', ''pw'')], destroyed = False\<rparr>)"
  by (simp add: verify_def truthy_def settle_def handleError_def)

theorem verify_error_event_leaves_connection_witness:
  "created (snd (verify \<lparr>external_identifier = Some ''cn=jdoe,ou=people''\<rparr> (Some ''pw'')
      [ClientError (LdapError (OtherError ''VError'')
         ''Parser error for ldap://directory:389'')])) \<and>
   \<not> destroyed (snd (verify \<lparr>external_identifier = Some ''cn=jdoe,ou=people''\<rparr> (Some ''pw'')
      [ClientError (LdapError (OtherError ''VError'')
         ''Parser error for ldap://directory:389'')]))"
  using verify_error_event_leaves_connection by simp

text \<open>The connection is destroyed exactly when the bind is called back.\<close>

lemma verify_destroyed_iff:
  "destroyed (snd (verify user pw evs)) \<longleftrightarrow>
     truthy (external_identifier user) \<and> truthy pw \<and> (\<exists>err. BindCallback err \<in> set evs)"
  by (auto simp: verify_def truthy_def verify_events_fields split: option.splits)

subsection \<open>refresh\<close>

lemma mask_bits: "bit (0x800012 :: int) k \<longleftrightarrow> k = 1 \<or> k = 4 \<or> k = 23"
proof -
  have e: "(0x800012 :: int) = 2 ^ 1 OR 2 ^ 4 OR 2 ^ 23" by simp
  have b: "bit (2 ^ 1 OR 2 ^ 4 OR 2 ^ 23 :: int) k \<longleftrightarrow> k = 1 \<or> k = 4 \<or> k = 23"
    by (simp only: bit_or_iff bit_exp_iff) auto
  show ?thesis by (simp only: e b)
qed

lemma ToInt32_mask: "sint (word_of_int n :: 32 word) AND 0x800012 = n AND 0x800012"
proof (rule bit_eqI)
  fix k
  show "bit (sint (word_of_int n :: 32 word) AND 0x800012) k = bit (n AND 0x800012) k"
    by (auto simp: bit_and_iff mask_bits bit_sint_iff bit_word_of_int_iff)
qed

lemma and_mask_zero:
  "(n AND (0x800012::int) = 0) \<longleftrightarrow> \<not> (bit n 1 \<or> bit n 4 \<or> bit n 23)"
proof -
  have "(n AND (0x800012::int) = 0) \<longleftrightarrow> (\<forall>k. \<not> bit (n AND (0x800012::int)) k)"
    using bit_eq_iff [where ?a = "n AND (0x800012::int)" and ?b = "0::int"] by simp
  also have "\<dots> \<longleftrightarrow> \<not> (bit n 1 \<or> bit n 4 \<or> bit n 23)"
    by (auto simp: bit_and_iff mask_bits)
  finally show ?thesis .
qed

lemma flagged_iff:
  "truthy_number (Num n) \<and> truthy_number (bitand (Num n) INVALID_ACCOUNT_FLAGS) \<longleftrightarrow>
   bit n 1 \<or> bit n 4 \<or> bit n 23"
proof -
  have m: "sint (word_of_int 0x800012 :: 32 word) = 0x800012" by simp
  have "truthy_number (bitand (Num n) INVALID_ACCOUNT_FLAGS) \<longleftrightarrow> n AND 0x800012 \<noteq> 0"
    by (simp add: truthy_number_def bitand_def ToInt32_def INVALID_ACCOUNT_FLAGS_def m ToInt32_mask
          del: sint_numeral)
  moreover have "n AND 0x800012 \<noteq> 0 \<Longrightarrow> n \<noteq> 0" by auto
  ultimately show ?thesis by (auto simp: truthy_number_def and_mask_zero)
qed

text \<open>
  C1. When the bind client is valid and the record of the user is fetched with the
  account-control value \<open>n\<close>, \<^verbatim>\<open>refresh\<close> throws \<^verbatim>\<open>InvalidCredentialsException\<close> exactly
  when bit 1 (0x2), bit 4 (0x10) or bit 23 (0x800000) of \<open>n\<close> is set, and resolves
  otherwise; the mask \<^verbatim>\<open>INVALID_ACCOUNT_FLAGS\<close> is the bitwise or of the three flags. The
  expiry of the session's token is no input of \<^verbatim>\<open>refresh\<close>.
\<close>

theorem refresh_rejects_flagged_account:
  assumes "validateBindClient drv = Some (Inr ())"
      and "fetchUserInfo drv xid = Some (Inr (Some info))"
      and "userAccountControl info = Num n"
  shows "(refresh drv xid = Some (Inl InvalidCredentialsException) \<longleftrightarrow>
            bit n 1 \<or> bit n 4 \<or> bit n 23) \<and>
         (refresh drv xid = Some (Inr ()) \<longleftrightarrow> \<not> (bit n 1 \<or> bit n 4 \<or> bit n 23)) \<and>
         (bit n 1 \<or> bit n 4 \<or> bit n 23 \<longleftrightarrow> n AND 0x800012 \<noteq> 0) \<and>
         INVALID_ACCOUNT_FLAGS = Num (0x2 OR 0x10 OR 0x800000)"
proof -
  have r: "refresh drv xid =
        (if bit n 1 \<or> bit n 4 \<or> bit n 23 then Some (Inl InvalidCredentialsException)
         else Some (Inr ()))"
    using assms flagged_iff [of n] by (simp add: refresh_def)
  have f: "INVALID_ACCOUNT_FLAGS = Num (0x2 OR 0x10 OR 0x800000)"
    by (simp add: INVALID_ACCOUNT_FLAGS_def)
  show ?thesis using r f and_mask_zero [of n] by auto
qed

theorem refresh_rejects_flagged_account_witness:
  "refresh (example_driver example_entry) ''cn=john doe,ou=people,dc=example,dc=org'' =
     Some (Inl InvalidCredentialsException) \<and> bit (514 :: int) 1"
proof -
  have v: "validateBindClient (example_driver example_entry) = Some (Inr ())"
    by code_simp
  have i: "fetchUserInfo (example_driver example_entry) ''cn=john doe,ou=people,dc=example,dc=org'' =
      Some (Inr (Some \<lparr>firstName = Some ''John'', lastName = Some ''Doe'',
                        email = Some ''jdoe@example.org'', userAccountControl = Num 514\<rparr>))"
    by code_simp
  have b: "bit (514 :: int) 1" by simp
  show ?thesis
    using refresh_rejects_flagged_account [OF v i, of 514] b by simp
qed

text \<open>
  C9. With a valid bind client, \<^verbatim>\<open>refresh\<close> resolves when \<^verbatim>\<open>fetchUserInfo\<close> answers
  \<^verbatim>\<open>undefined\<close> (the search ends without an entry), and when the account-control value
  is 0 or \<^verbatim>\<open>NaN\<close> (the entry has no such attribute).
\<close>

theorem refresh_tolerates_missing_record:
  assumes "validateBindClient drv = Some (Inr ())"
  shows "(fetchUserInfo drv xid = Some (Inr None) \<longrightarrow> refresh drv xid = Some (Inr ())) \<and>
         (\<forall>info. fetchUserInfo drv xid = Some (Inr (Some info)) \<and>
                 (userAccountControl info = Num 0 \<or> userAccountControl info = NaN)
                 \<longrightarrow> refresh drv xid = Some (Inr ())) \<and>
         (\<forall>st evs. search drv xid
                      \<lparr>filter_eq = None, scope = None,
                       attributes = [''givenName'', ''sn'',
                                     nullish (mailAttribute (cfg drv)) ''mail'',
                                     ''userAccountControl'']\<rparr> =
                    SearchResponse (EndEvent st # evs)
                 \<longrightarrow> refresh drv xid = Some (Inr ())) \<and>
         (\<forall>object evs. search drv xid
                      \<lparr>filter_eq = None, scope = None,
                       attributes = [''givenName'', ''sn'',
                                     nullish (mailAttribute (cfg drv)) ''mail'',
                                     ''userAccountControl'']\<rparr> =
                    SearchResponse (SearchEntry object # evs) \<and>
                    attr object ''userAccountControl'' = None
                 \<longrightarrow> refresh drv xid = Some (Inr ()))"
  using assms
  by (auto simp: refresh_def truthy_number_def fetchUserInfo_def on_search_def
        fetchUserInfo_on_def first_or_self_def Number_def)


theorem refresh_tolerates_missing_record_witness:
  "refresh (example_driver example_entry) ''cn=gone,ou=people,dc=example,dc=org'' = Some (Inr ()) \<and>
   refresh (example_driver (example_entry\<lparr>attrs := Map.empty\<rparr>))
     ''cn=john doe,ou=people,dc=example,dc=org'' = Some (Inr ())"
proof -
  let ?gone = "''cn=gone,ou=people,dc=example,dc=org''"
  let ?bare = "example_driver (example_entry\<lparr>attrs := Map.empty\<rparr>)"
  have v: "validateBindClient (example_driver example_entry) = Some (Inr ())"
    by code_simp
  have g: "fetchUserInfo (example_driver example_entry) ?gone = Some (Inr None)"
    by code_simp
  have v': "validateBindClient ?bare = Some (Inr ())"
    by code_simp
  have n: "fetchUserInfo ?bare ''cn=john doe,ou=people,dc=example,dc=org'' =
      Some (Inr (Some \<lparr>firstName = None, lastName = None, email = None,
                        userAccountControl = NaN\<rparr>))"
    by code_simp
  show ?thesis
    using refresh_tolerates_missing_record [OF v, of ?gone]
      refresh_tolerates_missing_record [OF v', of "''cn=john doe,ou=people,dc=example,dc=org''"]
      g n
    by simp
qed

subsection \<open>Attributes with one or several values\<close>

lemma fetchUserGroups_events_entries:
  "fetchUserGroups_events (map SearchEntry es @ EndEvent st # rest) acc =
     Some (Inr (acc @ concat (map group_names es)))"
proof (induction es arbitrary: acc)
  case Nil
  show ?case by simp
next
  case (Cons e es)
  show ?case
  proof (cases "attr e ''cn''")
    case None
    then show ?thesis using Cons.IH by (simp add: group_names_def)
  next
    case (Some v)
    then show ?thesis using Cons.IH by (cases v) (simp_all add: group_names_def)
  qed
qed

text \<open>
  C7. From the entry that answers \<^verbatim>\<open>fetchUserInfo\<close>, the first name, the last name, the
  email and the account-control value are the first element of a list-valued attribute
  and the value itself of a scalar one. \<^verbatim>\<open>fetchUserGroups\<close> answers the names of all
  entries up to the end of the response, in order, and a list-valued \<^verbatim>\<open>cn\<close> contributes
  each of its elements.
\<close>

theorem attributes_first_value_groups_all:
  "(search drv xid
      \<lparr>filter_eq = None, scope = None,
       attributes = [''givenName'', ''sn'', nullish (mailAttribute (cfg drv)) ''mail'',
                     ''userAccountControl'']\<rparr> = SearchResponse (SearchEntry object # evs)
    \<longrightarrow> (\<exists>info. fetchUserInfo drv xid = Some (Inr (Some info)) \<and>
          (\<forall>x xs. attr object ''givenName'' = Some (Multi (x # xs)) \<longrightarrow> firstName info = Some x) \<and>
          (\<forall>x. attr object ''givenName'' = Some (Scalar x) \<longrightarrow> firstName info = Some x) \<and>
          (\<forall>x xs. attr object ''sn'' = Some (Multi (x # xs)) \<longrightarrow> lastName info = Some x) \<and>
          (\<forall>x. attr object ''sn'' = Some (Scalar x) \<longrightarrow> lastName info = Some x) \<and>
          (\<forall>x xs. attr object (nullish (mailAttribute (cfg drv)) ''mail'') = Some (Multi (x # xs))
                    \<longrightarrow> email info = Some x) \<and>
          (\<forall>x. attr object (nullish (mailAttribute (cfg drv)) ''mail'') = Some (Scalar x)
                    \<longrightarrow> email info = Some x) \<and>
          (\<forall>x xs. attr object ''userAccountControl'' = Some (Multi (x # xs))
                    \<longrightarrow> userAccountControl info = Number_of drv x) \<and>
          (\<forall>x. attr object ''userAccountControl'' = Some (Scalar x)
                    \<longrightarrow> userAccountControl info = Number_of drv x))) \<and>
   (groupDn (cfg drv) = Some gdn \<and> gdn \<noteq> [] \<and>
    search drv gdn
      \<lparr>filter_eq = Some (nullish (groupAttribute (cfg drv)) ''member'', xid),
       scope = Some (nullish (groupScope (cfg drv)) ''one''),
       attributes = [''cn'']\<rparr> = SearchResponse (map SearchEntry es @ EndEvent st # rest)
    \<longrightarrow> fetchUserGroups drv xid = Some (Inr (concat (map group_names es)))) \<and>
   (\<forall>object cns. attr object ''cn'' = Some (Multi cns) \<longrightarrow> group_names object = cns)"
proof -
  have a: "search drv xid
      \<lparr>filter_eq = None, scope = None,
       attributes = [''givenName'', ''sn'', nullish (mailAttribute (cfg drv)) ''mail'',
                     ''userAccountControl'']\<rparr> = SearchResponse (SearchEntry object # evs)
    \<Longrightarrow> fetchUserInfo drv xid = Some (Inr (Some
          \<lparr>firstName = first_or_self (attr object ''givenName''),
           lastName = first_or_self (attr object ''sn''),
           email = first_or_self (attr object (nullish (mailAttribute (cfg drv)) ''mail'')),
           userAccountControl = Number drv (first_or_self (attr object ''userAccountControl''))\<rparr>))"
    by (simp add: fetchUserInfo_def on_search_def fetchUserInfo_on_def)
  have b: "groupDn (cfg drv) = Some gdn \<and> gdn \<noteq> [] \<and>
    search drv gdn
      \<lparr>filter_eq = Some (nullish (groupAttribute (cfg drv)) ''member'', xid),
       scope = Some (nullish (groupScope (cfg drv)) ''one''),
       attributes = [''cn'']\<rparr> = SearchResponse (map SearchEntry es @ EndEvent st # rest)
    \<Longrightarrow> fetchUserGroups drv xid = Some (Inr (concat (map group_names es)))"
    by (simp add: fetchUserGroups_def truthy_def nullish_def fetchUserGroups_events_entries)
  have c: "\<forall>object cns. attr object ''cn'' = Some (Multi cns) \<longrightarrow> group_names object = cns"
    by (simp add: group_names_def)
  show ?thesis
  proof (intro conjI impI)
    assume h: "search drv xid
      \<lparr>filter_eq = None, scope = None,
       attributes = [''givenName'', ''sn'', nullish (mailAttribute (cfg drv)) ''mail'',
                     ''userAccountControl'']\<rparr> = SearchResponse (SearchEntry object # evs)"
    show "\<exists>info. fetchUserInfo drv xid = Some (Inr (Some info)) \<and>
          (\<forall>x xs. attr object ''givenName'' = Some (Multi (x # xs)) \<longrightarrow> firstName info = Some x) \<and>
          (\<forall>x. attr object ''givenName'' = Some (Scalar x) \<longrightarrow> firstName info = Some x) \<and>
          (\<forall>x xs. attr object ''sn'' = Some (Multi (x # xs)) \<longrightarrow> lastName info = Some x) \<and>
          (\<forall>x. attr object ''sn'' = Some (Scalar x) \<longrightarrow> lastName info = Some x) \<and>
          (\<forall>x xs. attr object (nullish (mailAttribute (cfg drv)) ''mail'') = Some (Multi (x # xs))
                    \<longrightarrow> email info = Some x) \<and>
          (\<forall>x. attr object (nullish (mailAttribute (cfg drv)) ''mail'') = Some (Scalar x)
                    \<longrightarrow> email info = Some x) \<and>
          (\<forall>x xs. attr object ''userAccountControl'' = Some (Multi (x # xs))
                    \<longrightarrow> userAccountControl info = Number_of drv x) \<and>
          (\<forall>x. attr object ''userAccountControl'' = Some (Scalar x)
                    \<longrightarrow> userAccountControl info = Number_of drv x)"
      unfolding a [OF h] by (auto simp: first_or_self_def Number_def)
  next
    assume "groupDn (cfg drv) = Some gdn \<and> gdn \<noteq> [] \<and>
    search drv gdn
      \<lparr>filter_eq = Some (nullish (groupAttribute (cfg drv)) ''member'', xid),
       scope = Some (nullish (groupScope (cfg drv)) ''one''),
       attributes = [''cn'']\<rparr> = SearchResponse (map SearchEntry es @ EndEvent st # rest)"
    then show "fetchUserGroups drv xid = Some (Inr (concat (map group_names es)))" by (rule b)
  next
    show "\<forall>object cns. attr object ''cn'' = Some (Multi cns) \<longrightarrow> group_names object = cns"
      by (rule c)
  qed
qed

theorem attributes_first_value_groups_all_witness:
  "fetchUserInfo (example_driver example_entry) ''cn=john doe,ou=people,dc=example,dc=org'' =
     Some (Inr (Some \<lparr>firstName = Some ''John'', lastName = Some ''Doe'',
                       email = Some ''jdoe@example.org'', userAccountControl = Num 514\<rparr>)) \<and>
   fetchUserGroups (example_driver example_entry) ''cn=john doe,ou=people,dc=example,dc=org'' =
     Some (Inr [''Editors'', ''Staff'', ''Employees''])"
proof -
  let ?xid = "''cn=john doe,ou=people,dc=example,dc=org''"
  let ?drv = "example_driver example_entry"
  have lc: "example_lower (dn example_entry) = ?xid"
    by code_simp
  have s1: "search ?drv ?xid
      \<lparr>filter_eq = None, scope = None,
       attributes = [''givenName'', ''sn'', nullish (mailAttribute (cfg ?drv)) ''mail'',
                     ''userAccountControl'']\<rparr> =
      SearchResponse (SearchEntry example_entry # [EndEvent (Some 0)])"
    by (simp add: example_driver_def example_search_def lc)
  have s2: "groupDn (cfg ?drv) = Some ''ou=groups,dc=example,dc=org'' \<and>
      ''ou=groups,dc=example,dc=org'' \<noteq> [] \<and>
      search ?drv ''ou=groups,dc=example,dc=org''
        \<lparr>filter_eq = Some (nullish (groupAttribute (cfg ?drv)) ''member'', ?xid),
         scope = Some (nullish (groupScope (cfg ?drv)) ''one''),
         attributes = [''cn'']\<rparr> =
      SearchResponse (map SearchEntry example_group_entries @ EndEvent (Some 0) # [])"
    by (simp add: example_driver_def example_config_def example_search_def)
  have a: "attr example_entry ''givenName'' = Some (Multi (''John'' # [''Johnny'']))"
      "attr example_entry ''sn'' = Some (Scalar ''Doe'')"
      "attr example_entry (nullish (mailAttribute (cfg ?drv)) ''mail'') =
         Some (Multi (''jdoe@example.org'' # [''john@example.org'']))"
      "attr example_entry ''userAccountControl'' = Some (Scalar ''514'')"
      "Number_of ?drv ''514'' = Num 514"
    by (simp_all add: attr_def example_entry_def example_driver_def example_config_def nullish_def)
  have g: "concat (map group_names example_group_entries) = [''Editors'', ''Staff'', ''Employees'']"
    by (simp add: group_names_def example_group_entries_def attr_def)
  from attributes_first_value_groups_all
         [of ?drv ?xid example_entry "[EndEvent (Some 0)]" "''ou=groups,dc=example,dc=org''"
             example_group_entries "Some 0" "[]"] s1 s2
  obtain info where i: "fetchUserInfo ?drv ?xid = Some (Inr (Some info))"
      "firstName info = Some ''John''" "lastName info = Some ''Doe''"
      "email info = Some ''jdoe@example.org''" "userAccountControl info = Num 514"
    and gs: "fetchUserGroups ?drv ?xid = Some (Inr (concat (map group_names example_group_entries)))"
    using a by auto
  have "info = \<lparr>firstName = Some ''John'', lastName = Some ''Doe'',
                       email = Some ''jdoe@example.org'', userAccountControl = Num 514\<rparr>"
    using i by (cases info) simp
  then show ?thesis using i gs g by simp
qed

subsection \<open>getUserID\<close>







text \<open>
  C5. When the distinguished name is linked to a user already, \<^verbatim>\<open>getUserID\<close> calls
  the users service at most once, with \<^verbatim>\<open>updateOne\<close> on that user and a payload whose only
  field is \<^verbatim>\<open>role\<close> (the id of the resolved role, or null), never with \<^verbatim>\<open>createOne\<close>; a
  result it returns is the id of that user.
\<close>

theorem linked_identity_only_updates_role:
  assumes "ident \<noteq> []"
      and "validateBindClient drv = Some (Inr ())"
      and "fetchUserDn drv ident = Some (Inr (Some udn))"
      and "udn \<noteq> []"
      and "fetchUserId drv (db w) udn = Some uid"
      and "uid \<noteq> []"
  shows "(\<exists>new. calls (snd (getUserID drv svc (Some ident) w)) = calls w @ new \<and>
            (new = [] \<and> db (snd (getUserID drv svc (Some ident) w)) = db w \<or>
             (\<exists>v. v \<noteq> Undefined \<and> new = [UpdateOne uid [(''role'', v)]]))) \<and>
         (\<forall>x. fst (getUserID drv svc (Some ident) w) = Some (Inr x) \<longrightarrow> x = Some uid) \<and>
         (\<forall>gs. fetchUserGroups drv udn = Some (Inr gs) \<longrightarrow>
            calls (snd (getUserID drv svc (Some ident) w)) =
              calls w @ [UpdateOne uid
                           [(''role'', or_null (userRole_id (select_userRole drv (db w) gs)))]]) \<and>
         (\<forall>gs d. fetchUserGroups drv udn = Some (Inr gs) \<and>
            updateOne svc uid [(''role'', or_null (userRole_id (select_userRole drv (db w) gs)))]
              (db w) = Inr d \<longrightarrow>
            getUserID drv svc (Some ident) w =
              (Some (Inr (Some uid)),
               \<lparr>db = d,
                calls = calls w @ [UpdateOne uid
                           [(''role'', or_null (userRole_id (select_userRole drv (db w) gs)))]]\<rparr>))"
proof -
  have n: "or_null v \<noteq> Undefined" for v
    by (cases v) (simp_all add: or_null_def)
  have g: "getUserID drv svc (Some ident) w =
      await (fetchUserGroups drv udn) w (\<lambda>userGroups.
        getUserID_linked svc uid (select_userRole drv (db w) userGroups) w)"
    using assms by (simp add: getUserID_def await_def Let_def split: option.splits sum.splits)
  show ?thesis
  proof (cases "fetchUserGroups drv udn")
    case None
    then show ?thesis by (simp add: g await_def)
  next
    case (Some res)
    show ?thesis
    proof (cases res)
      case (Inl x)
      with Some show ?thesis by (simp add: g await_def)
    next
      case (Inr gs)
      let ?p = "[(''role'', or_null (userRole_id (select_userRole drv (db w) gs)))]"
      show ?thesis
      proof (cases "updateOne svc uid ?p (db w)")
        case (Inl x)
        with Some Inr show ?thesis
          using n by (simp add: g await_def getUserID_linked_def Let_def)
      next
        case (Inr d)
        have "w\<lparr>calls := c, db := d\<rparr> = \<lparr>db = d, calls = c\<rparr>" for c
          by (cases w) simp
        with Inr Some \<open>res = Inr gs\<close> show ?thesis
          using n by (simp add: g await_def getUserID_linked_def Let_def)
      qed
    qed
  qed
qed

theorem linked_identity_only_updates_role_witness:
  "fst (getUserID (example_driver example_entry) example_service (Some ''jdoe'')
          \<lparr>db = example_database, calls = []\<rparr>) = Some (Inr (Some ''u1'')) \<and>
   calls (snd (getUserID (example_driver example_entry) example_service (Some ''jdoe'')
          \<lparr>db = example_database, calls = []\<rparr>)) = [UpdateOne ''u1'' [(''role'', Str ''r2'')]] \<and>
   fst (getUserID (example_driver example_entry_accent) example_service (Some ''jdoe'')
          \<lparr>db = example_database, calls = []\<rparr>) = Some (Inr (Some ''u2'')) \<and>
   calls (snd (getUserID (example_driver example_entry_accent) example_service (Some ''jdoe'')
          \<lparr>db = example_database, calls = []\<rparr>)) = [UpdateOne ''u2'' [(''role'', Str ''r2'')]]"
proof -
  let ?w = "\<lparr>db = example_database, calls = []\<rparr>"
  let ?gs = "[''Editors'', ''Staff'', ''Employees'']"
  have part: "fst (getUserID drv example_service (Some ''jdoe'') ?w) = Some (Inr (Some uid)) \<and>
      calls (snd (getUserID drv example_service (Some ''jdoe'') ?w)) =
        [UpdateOne uid [(''role'', Str ''r2'')]]"
    if v: "validateBindClient drv = Some (Inr ())"
      and u: "fetchUserDn drv ''jdoe'' = Some (Inr (Some udn))"
      and i: "fetchUserId drv (db ?w) udn = Some uid"
      and gr: "fetchUserGroups drv udn = Some (Inr ?gs)"
      and r: "or_null (userRole_id (select_userRole drv (db ?w) ?gs)) = Str ''r2''"
      and a: "udn \<noteq> []" "uid \<noteq> []"
    for drv udn uid
  proof -
    let ?p = "[(''role'', or_null (userRole_id (select_userRole drv (db ?w) ?gs)))]"
    let ?d = "example_database\<lparr>directus_users :=
               map (\<lambda>r. if column r ''id'' = Str uid then [(''role'', Str ''r2'')] @ r else r)
                 (directus_users example_database)\<rparr>"
    have j: "''jdoe'' \<noteq> []" by simp
    have up: "updateOne example_service uid ?p (db ?w) = Inr ?d"
      unfolding r by (simp add: example_service_def)
    note t = linked_identity_only_updates_role [OF j v u a(1) i a(2), of example_service]
    note t3 = t [THEN conjunct2, THEN conjunct2, THEN conjunct1, rule_format, OF gr]
    note t4 = t [THEN conjunct2, THEN conjunct2, THEN conjunct2, rule_format,
                 OF conjI [OF gr up]]
    have k: "calls (snd (getUserID drv example_service (Some ''jdoe'') ?w)) =
        [UpdateOne uid [(''role'', Str ''r2'')]]"
      unfolding t3 r by simp
    have f: "fst (getUserID drv example_service (Some ''jdoe'') ?w) = Some (Inr (Some uid))"
      unfolding t4 by simp
    from f k show ?thesis by (rule conjI)
  qed
  let ?drv = "example_driver example_entry"
  let ?udn = "''cn=john doe,ou=people,dc=example,dc=org''"
  have v: "validateBindClient ?drv = Some (Inr ())" by code_simp
  have u: "fetchUserDn ?drv ''jdoe'' = Some (Inr (Some ?udn))" by code_simp
  have i: "fetchUserId ?drv (db ?w) ?udn = Some ''u1''" by code_simp
  have gr: "fetchUserGroups ?drv ?udn = Some (Inr ?gs)" by code_simp
  have r: "or_null (userRole_id (select_userRole ?drv (db ?w) ?gs)) = Str ''r2''" by code_simp
  have one: "fst (getUserID ?drv example_service (Some ''jdoe'') ?w) = Some (Inr (Some ''u1'')) \<and>
      calls (snd (getUserID ?drv example_service (Some ''jdoe'') ?w)) =
        [UpdateOne ''u1'' [(''role'', Str ''r2'')]]"
    by (rule part [OF v u i gr r]) simp_all
  let ?drv' = "example_driver example_entry_accent"
  let ?udn' = "''cn=jos'' @ [CHR 0xC3, CHR 0xA9] @ '',ou=people,dc=example,dc=org''"
  have v': "validateBindClient ?drv' = Some (Inr ())" by code_simp
  have u': "fetchUserDn ?drv' ''jdoe'' = Some (Inr (Some ?udn'))" by code_simp
  have i': "fetchUserId ?drv' (db ?w) ?udn' = Some ''u2''" by code_simp
  have gr': "fetchUserGroups ?drv' ?udn' = Some (Inr ?gs)" by code_simp
  have r': "or_null (userRole_id (select_userRole ?drv' (db ?w) ?gs)) = Str ''r2''" by code_simp
  have two: "fst (getUserID ?drv' example_service (Some ''jdoe'') ?w) = Some (Inr (Some ''u2'')) \<and>
      calls (snd (getUserID ?drv' example_service (Some ''jdoe'') ?w)) =
        [UpdateOne ''u2'' [(''role'', Str ''r2'')]]"
    by (rule part [OF v' u' i' gr' r']) simp_all
  from one two show ?thesis by simp
qed

subsection \<open>The login route\<close>

text \<open>
  C4. For a body the schema accepts and a login that succeeds: in mode \<^verbatim>\<open>json\<close>, or with
  no mode, the payload holds the access token and the refresh token and no cookie is
  set; in mode \<^verbatim>\<open>cookie\<close> the payload holds the access token only and the refresh token
  is the value of one cookie, HttpOnly, with the configured domain and Secure flag
  (false by default), SameSite \<^verbatim>\<open>strict\<close> unless configured, and the max-age that \<^verbatim>\<open>ms\<close>
  reads from the refresh-token TTL. The schema admits no other mode.
\<close>

theorem login_route_token_transport:
  assumes "loginSchema_validate body = None"
      and "svc prov body (otp body) = Inr r"
  shows "(mode body = None \<or> mode body = Some ''json'' \<longrightarrow>
            login_route env ms svc prov body =
              Inr \<lparr>payload_data = \<lparr>access_token = accessToken r, expires = expires_in r,
                                    refresh_token = Some (refreshToken r)\<rparr>,
                   cookies = []\<rparr>) \<and>
         (mode body = Some ''cookie'' \<longrightarrow>
            login_route env ms svc prov body =
              Inr \<lparr>payload_data = \<lparr>access_token = accessToken r, expires = expires_in r,
                                    refresh_token = None\<rparr>,
                   cookies =
                     [\<lparr>cookie_name = REFRESH_TOKEN_COOKIE_NAME env,
                       cookie_value = refreshToken r,
                       options =
                         \<lparr>httpOnly = True,
                          domain = REFRESH_TOKEN_COOKIE_DOMAIN env,
                          maxAge = ms (REFRESH_TOKEN_TTL env),
                          secure = (case REFRESH_TOKEN_COOKIE_SECURE env of
                                      None \<Rightarrow> False | Some b \<Rightarrow> b),
                          sameSite = (case REFRESH_TOKEN_COOKIE_SAME_SITE env of
                                        None \<Rightarrow> ''strict''
                                      | Some v \<Rightarrow> if v = [] then ''strict'' else v)\<rparr>\<rparr>]\<rparr>) \<and>
         (mode body = None \<or> mode body = Some ''json'' \<or> mode body = Some ''cookie'')"
proof -
  have m: "mode body = None \<or> mode body = Some ''json'' \<or> mode body = Some ''cookie''"
    using assms(1) by (auto simp: loginSchema_validate_def split: if_splits)
  have j: "mode body = None \<or> mode body = Some ''json'' \<Longrightarrow> or_else (mode body) ''json'' = ''json''"
    by (auto simp: or_else_def)
  have c: "mode body = Some ''cookie'' \<Longrightarrow> or_else (mode body) ''json'' = ''cookie''"
    by (simp add: or_else_def)
  show ?thesis
  proof (intro conjI impI)
    assume "mode body = None \<or> mode body = Some ''json''"
    from j [OF this] show "login_route env ms svc prov body =
              Inr \<lparr>payload_data = \<lparr>access_token = accessToken r, expires = expires_in r,
                                    refresh_token = Some (refreshToken r)\<rparr>,
                   cookies = []\<rparr>"
      using assms by (simp add: login_route_def Let_def)
  next
    assume "mode body = Some ''cookie''"
    from c [OF this] show "login_route env ms svc prov body =
              Inr \<lparr>payload_data = \<lparr>access_token = accessToken r, expires = expires_in r,
                                    refresh_token = None\<rparr>,
                   cookies =
                     [\<lparr>cookie_name = REFRESH_TOKEN_COOKIE_NAME env,
                       cookie_value = refreshToken r,
                       options =
                         \<lparr>httpOnly = True,
                          domain = REFRESH_TOKEN_COOKIE_DOMAIN env,
                          maxAge = ms (REFRESH_TOKEN_TTL env),
                          secure = (case REFRESH_TOKEN_COOKIE_SECURE env of
                                      None \<Rightarrow> False | Some b \<Rightarrow> b),
                          sameSite = (case REFRESH_TOKEN_COOKIE_SAME_SITE env of
                                        None \<Rightarrow> ''strict''
                                      | Some v \<Rightarrow> if v = [] then ''strict'' else v)\<rparr>\<rparr>]\<rparr>"
      using assms by (simp add: login_route_def Let_def or_else_def)
  next
    show "mode body = None \<or> mode body = Some ''json'' \<or> mode body = Some ''cookie''"
      by (rule m)
  qed
qed

theorem login_route_token_transport_witness:
  "login_route example_environment example_ms example_login ''ldap''
     \<lparr>identifier' = Some ''jdoe'', password = Some ''pw'', mode = None, otp = None\<rparr> =
     Inr \<lparr>payload_data = \<lparr>access_token = ''AT1'', expires = 900000, refresh_token = Some ''RT1''\<rparr>,
          cookies = []\<rparr> \<and>
   login_route example_environment example_ms example_login ''ldap''
     \<lparr>identifier' = Some ''jdoe'', password = Some ''pw'', mode = Some ''cookie'', otp = None\<rparr> =
     Inr \<lparr>payload_data = \<lparr>access_token = ''AT1'', expires = 900000, refresh_token = None\<rparr>,
          cookies = [\<lparr>cookie_name = ''directus_refresh_token'', cookie_value = ''RT1'',
                      options = \<lparr>httpOnly = True, domain = None, maxAge = Some 604800000,
                                 secure = False, sameSite = ''strict''\<rparr>\<rparr>]\<rparr>"
proof -
  let ?j = "\<lparr>identifier' = Some ''jdoe'', password = Some ''pw'', mode = None, otp = None\<rparr>"
  let ?c = "\<lparr>identifier' = Some ''jdoe'', password = Some ''pw'', mode = Some ''cookie'',
             otp = None\<rparr>"
  let ?r = "\<lparr>accessToken = ''AT1'', refreshToken = ''RT1'', expires_in = 900000\<rparr>"
  have vj: "loginSchema_validate ?j = None" by (simp add: loginSchema_validate_def)
  have vc: "loginSchema_validate ?c = None" by (simp add: loginSchema_validate_def)
  have lj: "example_login ''ldap'' ?j (otp ?j) = Inr ?r" by (simp add: example_login_def)
  have lc: "example_login ''ldap'' ?c (otp ?c) = Inr ?r" by (simp add: example_login_def)
  show ?thesis
    using
      login_route_token_transport
        [where body = ?j and svc = example_login and prov = "''ldap''" and r = ?r
           and env = example_environment and ms = example_ms]
      login_route_token_transport
        [where body = ?c and svc = example_login and prov = "''ldap''" and r = ?r
           and env = example_environment and ms = example_ms]
      vj vc lj lc
    by (simp add: example_environment_def example_ms_def)
qed

subsection \<open>The SDK's session\<close>

lemma ticks_add: "ticks (a + b) srv c = ticks b srv (ticks a srv c)"
  by (induction a arbitrary: c) simp_all

lemma ticks_idle:
  "timer c = Some t \<Longrightarrow> now c + int k < t \<Longrightarrow> ticks k srv c = c\<lparr>now := now c + int k\<rparr>"
proof (induction k arbitrary: c)
  case 0
  show ?case by simp
next
  case (Suc k)
  have s: "tick srv c = c\<lparr>now := now c + 1\<rparr>"
    using Suc.prems by (simp add: tick_def Let_def)
  have "ticks k srv (tick srv c) = (tick srv c)\<lparr>now := now (tick srv c) + int k\<rparr>"
    using Suc.prems by (intro Suc.IH) (simp_all add: s)
  then show ?case by (simp add: s add.assoc add.commute)
qed

lemma tick_fires:
  "timer c = Some t \<Longrightarrow> t \<le> now c + 1 \<Longrightarrow>
   tick srv c = sdk_refresh srv (c\<lparr>now := now c + 1, timer := None\<rparr>)"
  by (simp add: tick_def Let_def)

text \<open>
  C8. In the session modelled from the specification: after a login at time \<open>now\<close> that
  answers a token with the lifetime \<open>expires\<close>, so that its expiry is
  \<open>E = now + expires\<close>, with auto-refresh enabled and a lead time \<open>L\<close> between 0 and the
  lifetime, no request is sent and the token stays as it is before \<open>E - L\<close>; at
  \<open>E - L\<close> one refresh request with the stored refresh token is sent; the stored token
  and expiry are then those of the answer, at a time before \<open>E\<close>; and no further request
  is sent until the lead time of the new token.
\<close>

theorem refresh_sent_at_lead_time:
  assumes "autoRefresh c"
      and "on_login srv e p = Some r"
      and "refresh_token r = Some rt"
      and "on_refresh srv rt = Some r'"
      and "0 < msRefreshBeforeExpires c"
      and "msRefreshBeforeExpires c < expires r"
  shows "(\<forall>k. int k < expires r - msRefreshBeforeExpires c \<longrightarrow>
            sent (ticks k srv (sdk_login srv e p c)) = sent (sdk_login srv e p c) \<and>
            auth_token (ticks k srv (sdk_login srv e p c)) = Some (access_token r)) \<and>
         sent (ticks (nat (expires r - msRefreshBeforeExpires c)) srv (sdk_login srv e p c)) =
           sent (sdk_login srv e p c) @
             [(now c + expires r - msRefreshBeforeExpires c, RefreshRequest rt)] \<and>
         auth_token (ticks (nat (expires r - msRefreshBeforeExpires c)) srv (sdk_login srv e p c)) =
           Some (access_token r') \<and>
         auth_expires_at (ticks (nat (expires r - msRefreshBeforeExpires c)) srv (sdk_login srv e p c)) =
           Some (now c + expires r - msRefreshBeforeExpires c + expires r') \<and>
         now c + expires r - msRefreshBeforeExpires c < now c + expires r \<and>
         auth_expires_at (sdk_login srv e p c) = Some (now c + expires r) \<and>
         (\<forall>k. int k < expires r' - msRefreshBeforeExpires c \<longrightarrow>
            sent (ticks (nat (expires r - msRefreshBeforeExpires c) + k) srv (sdk_login srv e p c)) =
              sent (sdk_login srv e p c) @
                [(now c + expires r - msRefreshBeforeExpires c, RefreshRequest rt)])"
proof -
  let ?L = "msRefreshBeforeExpires c"
  let ?c1 = "sdk_login srv e p c"
  let ?n = "nat (expires r - ?L)"
  have c1: "?c1 = updateStorage r (c\<lparr>sent := sent c @ [(now c, LoginRequest e p)]\<rparr>)"
    using assms(2) by (simp add: sdk_login_def Let_def)
  have t1: "timer ?c1 = Some (now c + expires r - ?L)" and n1: "now ?c1 = now c"
    and a1: "auth_token ?c1 = Some (access_token r)"
    and rt1: "auth_refresh_token ?c1 = Some rt"
    and ar1: "autoRefresh ?c1" and l1: "msRefreshBeforeExpires ?c1 = ?L"
    and e1: "auth_expires_at ?c1 = Some (now c + expires r)"
    using assms by (simp_all add: c1 updateStorage_def)
  have idle: "ticks k srv ?c1 = ?c1\<lparr>now := now c + int k\<rparr>" if "int k < expires r - ?L" for k
    using ticks_idle [OF t1, of k srv] that by (simp add: n1)
  obtain m where m: "?n = Suc m" using assms(6) by (cases ?n) auto
  then have mk: "int m < expires r - ?L" and mm: "int m + 1 = expires r - ?L" by linarith+
  let ?c2 = "?c1\<lparr>now := now c + int m\<rparr>"
  have "ticks ?n srv ?c1 = tick srv (ticks m srv ?c1)"
    using ticks_add [of m 1 srv ?c1] m by simp
  also have "\<dots> = tick srv ?c2" by (simp add: idle [OF mk])
  also have "\<dots> = sdk_refresh srv (?c2\<lparr>now := now ?c2 + 1, timer := None\<rparr>)"
    using mm by (intro tick_fires [where t = "now c + expires r - ?L"]) (simp_all add: t1)
  finally have fin: "ticks ?n srv ?c1 =
      sdk_refresh srv (?c2\<lparr>now := now ?c2 + 1, timer := None\<rparr>)" .
  have nw: "now c + int m + 1 = now c + expires r - ?L" using mm by simp
  have A: "\<forall>k. int k < expires r - ?L \<longrightarrow>
            sent (ticks k srv ?c1) = sent ?c1 \<and> auth_token (ticks k srv ?c1) = Some (access_token r)"
    using idle a1 by simp
  have B: "sent (ticks ?n srv ?c1) = sent ?c1 @ [(now c + expires r - ?L, RefreshRequest rt)]"
    unfolding fin using assms(4) rt1 nw by (simp add: sdk_refresh_def Let_def updateStorage_def)
  have C: "auth_token (ticks ?n srv ?c1) = Some (access_token r')"
    unfolding fin using assms(4) rt1 by (simp add: sdk_refresh_def Let_def updateStorage_def)
  have D: "auth_expires_at (ticks ?n srv ?c1) = Some (now c + expires r - ?L + expires r')"
    unfolding fin using assms(4) rt1 nw by (simp add: sdk_refresh_def Let_def updateStorage_def)
  have E: "now c + expires r - ?L < now c + expires r" using assms(5) by simp
  let ?c3 = "ticks ?n srv ?c1"
  have t3: "timer ?c3 = Some (now ?c3 + expires r' - ?L)"
    unfolding fin using assms(4) rt1 ar1 l1
    by (simp add: sdk_refresh_def Let_def updateStorage_def)
  have F: "\<forall>k. int k < expires r' - ?L \<longrightarrow>
            sent (ticks (?n + k) srv ?c1) =
              sent ?c1 @ [(now c + expires r - ?L, RefreshRequest rt)]"
  proof (intro allI impI)
    fix k
    assume "int k < expires r' - ?L"
    then have "ticks k srv ?c3 = ?c3\<lparr>now := now ?c3 + int k\<rparr>"
      by (intro ticks_idle [OF t3]) simp
    then show "sent (ticks (?n + k) srv ?c1) =
              sent ?c1 @ [(now c + expires r - ?L, RefreshRequest rt)]"
      by (simp add: ticks_add B)
  qed
  show ?thesis using A B C D E e1 F by blast
qed

theorem refresh_sent_at_lead_time_witness:
  "sent (ticks 2500 example_server (sdk_login example_server ''jdoe'' ''pw'' example_client)) =
     [(0, LoginRequest ''jdoe'' ''pw''), (2500, RefreshRequest ''RT1'')] \<and>
   auth_token (ticks 2500 example_server (sdk_login example_server ''jdoe'' ''pw'' example_client)) =
     Some ''AT2'' \<and>
   sent (ticks 2499 example_server (sdk_login example_server ''jdoe'' ''pw'' example_client)) =
     [(0, LoginRequest ''jdoe'' ''pw'')] \<and>
   auth_token (ticks 2499 example_server (sdk_login example_server ''jdoe'' ''pw'' example_client)) =
     Some ''AT1''"
proof -
  let ?r = "\<lparr>access_token = ''AT1'', expires = 5000, refresh_token = Some ''RT1''\<rparr>"
  let ?r' = "\<lparr>access_token = ''AT2'', expires = 5000, refresh_token = Some ''RT2''\<rparr>"
  have h: "autoRefresh example_client"
      "on_login example_server ''jdoe'' ''pw'' = Some ?r"
      "refresh_token ?r = Some ''RT1''"
      "on_refresh example_server ''RT1'' = Some ?r'"
      "0 < msRefreshBeforeExpires example_client"
      "msRefreshBeforeExpires example_client < expires ?r"
    by (simp_all add: example_client_def example_server_def)
  have s: "sent (sdk_login example_server ''jdoe'' ''pw'' example_client) =
      [(0, LoginRequest ''jdoe'' ''pw'')]"
    by (simp add: sdk_login_def example_client_def example_server_def updateStorage_def)
  have n: "nat (expires ?r - msRefreshBeforeExpires example_client) = 2500"
      "now example_client + expires ?r - msRefreshBeforeExpires example_client = 2500"
      "int 2499 < expires ?r - msRefreshBeforeExpires example_client"
    by (simp_all add: example_client_def)
  note t = refresh_sent_at_lead_time [OF h]
  note t1 = t [THEN conjunct1, rule_format, OF n(3)]
  note t2 = t [THEN conjunct2, THEN conjunct1]
  note t3 = t [THEN conjunct2, THEN conjunct2, THEN conjunct1]
  have v: "msRefreshBeforeExpires example_client = 2500" "now example_client = 0"
    by (simp_all add: example_client_def)
  show ?thesis using t1 t2 t3 by (simp add: v s)
qed

end
